theory Spec2Isabelle
  imports Complex_Main
begin

section \<open>JavaScript values used by \<open>src/helpers/catalog.js\<close>\<close>

text \<open>
  Strings are \<open>string\<close>. A value that may be \<open>null\<close> or \<open>undefined\<close> is an
  \<open>option\<close>. A string-valued expression used as a condition is false when it is
  \<open>null\<close>, \<open>undefined\<close> or the empty string.
\<close>

definition truthy :: "string option \<Rightarrow> bool" where
  "truthy v = (case v of None \<Rightarrow> False | Some s \<Rightarrow> s \<noteq> [])"

text \<open>\<open>a || b\<close> on strings: the first operand when it is truthy, the second otherwise.\<close>

definition js_or :: "string option \<Rightarrow> string option \<Rightarrow> string option" where
  "js_or a b = (if truthy a then a else b)"

text \<open>
  \<open>s.split(sep)\<close> for a one-character separator: the pieces between the separators;
  the empty string gives one empty piece.
\<close>

primrec js_split :: "char \<Rightarrow> string \<Rightarrow> string list" where
  "js_split sep [] = [] # []"
| "js_split sep (c # cs) =
     (if c = sep then [] # js_split sep cs
      else (case js_split sep cs of
              [] \<Rightarrow> [c] # []
            | w # ws \<Rightarrow> (c # w) # ws))"

text \<open>\<open>s.split(sep)[0]\<close>: the list of pieces is never empty.\<close>

definition split0 :: "char \<Rightarrow> string \<Rightarrow> string" where
  "split0 sep s = hd (js_split sep s)"

text \<open>
  The decimal digits of a natural number, and the string of an integer inside a
  template literal (\<open>`${content.id}`\<close>): ids are integers, printed in decimal.
\<close>

fun show_nat :: "nat \<Rightarrow> string" where
  "show_nat n =
     (if n < 10 then [''0123456789'' ! n]
      else show_nat (n div 10) @ [''0123456789'' ! (n mod 10)])"

declare show_nat.simps [simp del]

definition show_int :: "int \<Rightarrow> string" where
  "show_int i = (if i < 0 then ''-'' @ show_nat (nat (- i)) else show_nat (nat i))"

text \<open>
  \<open>Number.prototype.toFixed(1)\<close>. A finite double is a rational number, and
  \<open>toFixed\<close> is defined on its exact value: the sign, then the integer \<open>n\<close> nearest
  to ten times the magnitude (the larger one on a tie), printed with its last digit
  after the point. From \<open>10^21\<close> on the result is the number's ordinary string, which
  depends on the double's shortest representation and is a parameter here.
\<close>

definition toFixed1 :: "(rat \<Rightarrow> string) \<Rightarrow> rat \<Rightarrow> string" where
  "toFixed1 numberToString x =
     (let sgn = (if x < 0 then ''-'' else '''');
          a = \<bar>x\<bar>
      in if a \<ge> 10 ^ 21 then sgn @ numberToString a
         else let n = nat \<lfloor>a * 10 + 1 / 2\<rfloor>
              in sgn @ show_nat (n div 10) @ ''.'' @ show_nat (n mod 10))"

section \<open>The paid-service URL (\<open>getRpdbPoster\<close>)\<close>

definition getRpdbPoster :: "string \<Rightarrow> int \<Rightarrow> string \<Rightarrow> string \<Rightarrow> string" where
  "getRpdbPoster type ident language rpdbkey =
     (let tier = split0 CHR ''-'' rpdbkey;
          lang = split0 CHR ''-'' language;
          baseUrl = ''https://api.ratingposterdb.com/'' @ rpdbkey @ ''/tmdb/poster-default/''
                    @ type @ ''-'' @ show_int ident @ ''.jpg?fallback=true''
      in if tier = ''t0'' \<or> tier = ''t1'' then baseUrl else baseUrl @ ''&lang='' @ lang)"

section \<open>Collaborators, state and effects\<close>

text \<open>
  A rejected promise or a thrown exception is an \<open>Error\<close> carrying its message; a
  call that may fail returns \<open>error + 'a\<close> with \<open>Inl\<close> the failure.
\<close>

datatype error = Error (message: string)

datatype level = Debug | Warn | Err

text \<open>Every call that leaves the module, in the order the module makes them.\<close>

datatype event =
    GetCachedPoster string
  | SetCachedPoster string string
  | AxiosHead string
  | CloudGetPosterUrl string
  | AxiosPost string string string string
  | GetFanartPoster int string string
  | MakeRequest string string
  | PoolQuery int string string
  | Log level string

text \<open>The body of a successful render response: \<open>response.data.success\<close> as a
  condition, and \<open>response.data.url\<close>.\<close>

record post_data =
  success :: bool
  data_url :: "string option"

text \<open>
  The collaborators the module imports, as the answers they give: \<open>axios.head\<close>
  (the status of the response, or a rejection), \<open>cloudStorage.getPosterUrl\<close>,
  \<open>axios.post\<close> to the render service (a rejection also stands for a response
  without a body, which raises inside the same \<open>try\<close>), \<open>getFanartPoster\<close>,
  \<open>makeRequest\<close> (the \<open>imdb_id\<close> of the answer) and \<open>pool.query\<close> of the
  genre-name statement (the \<open>genre_name\<close> column of the rows). \<open>baseUrl\<close> is the
  module constant read from the environment, and \<open>numberToString\<close> the string of
  a number of magnitude \<open>10^21\<close> or more, which \<open>toFixed\<close> hands over.
\<close>

record env =
  baseUrl :: string
  numberToString :: "rat \<Rightarrow> string"
  axios_head :: "string \<Rightarrow> error + nat"
  cloudStorage_getPosterUrl :: "string \<Rightarrow> error + string option"
  axios_post :: "string \<Rightarrow> string \<Rightarrow> string \<Rightarrow> string \<Rightarrow> error + post_data"
  getFanartPoster :: "int \<Rightarrow> string \<Rightarrow> string \<Rightarrow> error + string option"
  makeRequest :: "string \<Rightarrow> string \<Rightarrow> error + string option"
  pool_query :: "int \<Rightarrow> string \<Rightarrow> string \<Rightarrow> error + string option list"

text \<open>
  Modelled from the spec: the logo client \<open>getFanartPoster\<close> of \<open>../api/fanart\<close>,
  which is not among the sources. The spec gives it as
  \<open>fetchLogo(id, language, key) \<rightarrow> URL | null\<close> and has the errors of the logo
  service logged and never propagated: every call answers, with a URL or with
  \<open>null\<close>, so that a fetch that fails is an answer without a URL.
\<close>

definition fetchLogo_answers :: "env \<Rightarrow> bool" where
  "fetchLogo_answers env = (\<forall>ident lang k. \<exists>r. getFanartPoster env ident lang k = Inr r)"

text \<open>
  The state the module reads and writes: the Poster Cache and the calls made so far.
\<close>

record state =
  poster_cache :: "string \<rightharpoonup> string"
  trace :: "event list"

definition emit :: "event \<Rightarrow> state \<Rightarrow> state" where
  "emit e s = s\<lparr>trace := trace s @ [e]\<rparr>"

text \<open>
  Modelled from the spec: the Poster Cache of \<open>./cache\<close> (\<open>getCachedPoster\<close>,
  \<open>setCachedPoster\<close>), which is not among the sources. The spec gives it as
  \<open>get(key) \<rightarrow> URL | null\<close> and \<open>set(key, URL) \<rightarrow> void\<close> over entries keyed by
  \<open>poster:id\<close>; the entry read back is the \<open>poster_url\<close> of the row.
\<close>

definition getCachedPoster :: "string \<Rightarrow> state \<Rightarrow> string option \<times> state" where
  "getCachedPoster posterId s = (poster_cache s posterId, emit (GetCachedPoster posterId) s)"

text \<open>
  Modelled from the spec: \<open>setCachedPoster\<close> of \<open>./cache\<close>, the \<open>set\<close> of the
  Poster Cache.
\<close>

definition setCachedPoster :: "string \<Rightarrow> string \<Rightarrow> state \<Rightarrow> state" where
  "setCachedPoster posterId posterUrl s =
     emit (SetCachedPoster posterId posterUrl)
       (s\<lparr>poster_cache := (poster_cache s)(posterId \<mapsto> posterUrl)\<rparr>)"

section \<open>Catalog items\<close>

record content =
  content_id :: int
  title :: "string option"
  content_name :: "string option"
  overview :: "string option"
  poster_path :: "string option"
  backdrop_path :: "string option"
  vote_average :: "rat option"
  release_date :: "string option"
  first_air_date :: "string option"
  genre_ids :: "int list option"

section \<open>Poster resolution (\<open>getPosterUrl\<close>)\<close>

text \<open>
  The local \<open>rating\<close> (line 88): a vote average is a condition that is false when it
  is absent and when it is zero; \<open>parseFloat\<close> of a number is that number.
\<close>

definition rating :: "env \<Rightarrow> content \<Rightarrow> string" where
  "rating env content =
     (case vote_average content of
        None \<Rightarrow> ''NR''
      | Some v \<Rightarrow> if v = 0 then ''NR'' else toFixed1 (numberToString env) v)"

text \<open>The local \<open>contentId\<close> (line 89), the key of the Cloud Poster Store.\<close>

definition contentId :: "env \<Rightarrow> content \<Rightarrow> string" where
  "contentId env content = show_int (content_id content) @ ''-'' @ rating env content"

text \<open>
  The block \<open>if (rpdbApiKey) { ... }\<close> (lines 63 to 82) for a key that is set:
  \<open>Some url\<close> when the block returns \<open>url\<close>, \<open>None\<close> when control leaves the block.
\<close>

definition rpdbBlock :: "env \<Rightarrow> content \<Rightarrow> string \<Rightarrow> string \<Rightarrow> string \<Rightarrow> state
    \<Rightarrow> string option \<times> state" where
  "rpdbBlock env content catalogType language rpdbApiKey s =
     (let posterId = ''poster:'' @ show_int (content_id content)
      in case getCachedPoster posterId s of
           (Some poster_url, s1) \<Rightarrow>
             (Some poster_url, emit (Log Debug (''Using cached poster URL for id '' @ posterId)) s1)
         | (None, s1) \<Rightarrow>
             (let rpdbImage = getRpdbPoster catalogType (content_id content) language rpdbApiKey;
                  s2 = emit (AxiosHead rpdbImage) s1
              in case axios_head env rpdbImage of
                   Inl e \<Rightarrow>
                     (None, emit (Log Warn (''Error fetching RPDB poster: '' @ message e
                                    @ ''. Falling back to TMDB poster with rating.'')) s2)
                 | Inr status \<Rightarrow>
                     if status = 200
                     then (Some rpdbImage,
                           setCachedPoster posterId rpdbImage
                             (emit (Log Debug (''RPDB poster found for id '' @ posterId)) s2))
                     else (None, s2)))"

text \<open>Lines 84 to 120: the cloud store, the render service, the raw image.\<close>

definition cloudBlock :: "env \<Rightarrow> content \<Rightarrow> string \<Rightarrow> state \<Rightarrow> string \<times> state" where
  "cloudBlock env content path s =
     (let tmdbFallbackUrl = ''https://image.tmdb.org/t/p/w500'' @ path;
          key = contentId env content;
          s1 = emit (CloudGetPosterUrl key) s
      in case cloudStorage_getPosterUrl env key of
           Inl e \<Rightarrow>
             (tmdbFallbackUrl,
              emit (Log Err (''Error handling poster for '' @ key @ '': '' @ message e)) s1)
         | Inr cloudUrl \<Rightarrow>
             (case (if truthy cloudUrl then cloudUrl else None) of
                Some u \<Rightarrow> (u, emit (Log Debug (''Using existing cloud poster for '' @ key)) s1)
              | None \<Rightarrow>
                  (let s2 = emit (AxiosPost (baseUrl env @ ''/cache-rated-poster'')
                                    tmdbFallbackUrl (rating env content) key) s1
                   in case axios_post env (baseUrl env @ ''/cache-rated-poster'')
                             tmdbFallbackUrl (rating env content) key of
                        Inl e \<Rightarrow>
                          (tmdbFallbackUrl,
                           emit (Log Err (''Failed to create/upload rated poster for '' @ key
                                   @ '': '' @ message e)) s2)
                      | Inr d \<Rightarrow>
                          (case (if success d \<and> truthy (data_url d) then data_url d else None) of
                             Some u \<Rightarrow>
                               (u, emit (Log Debug (''Created new cloud poster for '' @ key)) s2)
                           | None \<Rightarrow> (tmdbFallbackUrl, s2)))))"

definition getPosterUrl :: "env \<Rightarrow> content \<Rightarrow> string \<Rightarrow> string \<Rightarrow> string option \<Rightarrow> state
    \<Rightarrow> string option \<times> state" where
  "getPosterUrl env content catalogType language rpdbApiKey s =
     (case (if truthy (poster_path content) then poster_path content else None) of
        None \<Rightarrow> (None, s)
      | Some path \<Rightarrow>
          (case (if truthy rpdbApiKey then rpdbApiKey else None) of
             None \<Rightarrow> (case cloudBlock env content path s of (u, s') \<Rightarrow> (Some u, s'))
           | Some k \<Rightarrow>
               (case rpdbBlock env content catalogType language k s of
                  (Some u, s1) \<Rightarrow> (Some u, s1)
                | (None, s1) \<Rightarrow>
                    (case cloudBlock env content path s1 of (u, s') \<Rightarrow> (Some u, s')))))"

section \<open>Genre names (\<open>getGenreName\<close>)\<close>

text \<open>
  The first row's \<open>genre_name\<close>, \<open>null\<close> without a row; a rejection of the query is
  thrown again.
\<close>

definition getGenreName :: "env \<Rightarrow> int \<Rightarrow> string \<Rightarrow> string \<Rightarrow> state
    \<Rightarrow> (error + string option) \<times> state" where
  "getGenreName env genreId type language s =
     (let mediaType = (if type = ''series'' then ''tv'' else ''movie'');
          s1 = emit (PoolQuery genreId mediaType language) s
      in case pool_query env genreId mediaType language of
           Inl err \<Rightarrow> (Inl err, s1)
         | Inr rows \<Rightarrow> (Inr (case rows of [] \<Rightarrow> None | row # _ \<Rightarrow> row), s1))"

section \<open>Metadata assembly (\<open>buildMetas\<close>)\<close>

text \<open>The parameters of \<open>buildMetas\<close> after the list of items.\<close>

record args =
  catalogType :: string
  language :: string
  rpdbApiKey :: "string option"
  fanartApiKey :: "string option"
  addWatchedTraktBtn :: "string option"
  hideTraktHistory :: "string option"
  traktUsername :: "string option"
  origin :: string
  tmdbApiKey :: "string option"

record link =
  link_name :: string
  category :: string
  url :: string

record meta =
  meta_id :: string
  meta_type :: string
  meta_name :: "string option"
  poster :: "string option"
  background :: "string option"
  logo :: "string option"
  description :: "string option"
  releaseInfo :: string
  imdbRating :: "string option"
  genres :: "string list"
  links :: "link list option"
  defaultVideoId :: string

text \<open>
  \<open>Promise.all(content.genre_ids.map(async (genreId) => ...))\<close>: every lookup is
  started, in the order of the ids; the whole rejects when one of them rejects.
\<close>

fun genrePromises :: "env \<Rightarrow> int list \<Rightarrow> string \<Rightarrow> string \<Rightarrow> state
    \<Rightarrow> (error + string option list) \<times> state" where
  "genrePromises env [] type lang s = (Inr [], s)"
| "genrePromises env (genreId # rest) type lang s =
     (case getGenreName env genreId type lang s of
        (r, s1) \<Rightarrow>
          (case genrePromises env rest type lang s1 of
             (rs, s2) \<Rightarrow>
               ((case r of
                   Inl e \<Rightarrow> Inl e
                 | Inr genreName \<Rightarrow>
                     (case rs of Inl e \<Rightarrow> Inl e | Inr names \<Rightarrow> Inr (genreName # names))),
                s2)))"

text \<open>\<open>genres.filter(Boolean)\<close> on names that may be \<open>null\<close>.\<close>

definition filterBoolean :: "string option list \<Rightarrow> string list" where
  "filterBoolean names = [n. Some n \<leftarrow> names, n \<noteq> []]"

text \<open>
  The record of lines 178 to 198 and the values of lines 164 to 176 it is built from,
  once the poster, the logo, the external id and the genre names are there.
\<close>

definition mkMeta :: "env \<Rightarrow> args \<Rightarrow> content \<Rightarrow> string option \<Rightarrow> string option
    \<Rightarrow> string option \<Rightarrow> string list \<Rightarrow> meta" where
  "mkMeta env a content posterUrl logoUrl imdbId genreNames =
     (let releaseDate = (if catalogType a = ''movies'' then release_date content
                         else first_air_date content);
          releaseInfoStr = (case (if truthy releaseDate then releaseDate else None) of
                              Some d \<Rightarrow> split0 CHR ''-'' d
                            | None \<Rightarrow> []);
          linkList = (case (addWatchedTraktBtn a, traktUsername a) of
                        (Some btn, Some user) \<Rightarrow>
                          if btn \<noteq> [] \<and> hideTraktHistory a = Some ''true'' \<and> user \<noteq> []
                          then [\<lparr>link_name = btn, category = ''Trakt'',
                                 url = origin a @ ''/updateWatched/'' @ user @ ''/''
                                       @ catalogType a @ ''/'' @ show_int (content_id content)\<rparr>]
                          else []
                      | _ \<Rightarrow> []);
          metaId = (case (if truthy imdbId then imdbId else None) of
                      Some i \<Rightarrow> i
                    | None \<Rightarrow> ''tmdb:'' @ show_int (content_id content))
      in \<lparr>meta_id = metaId,
          meta_type = (if catalogType a = ''movies'' then ''movie'' else ''series''),
          meta_name = (if catalogType a = ''movies'' then title content else content_name content),
          poster = posterUrl,
          background = (case (if truthy (backdrop_path content) then backdrop_path content
                              else None) of
                          Some b \<Rightarrow> Some (''https://image.tmdb.org/t/p/w1280'' @ b)
                        | None \<Rightarrow> None),
          logo = js_or logoUrl None,
          description = overview content,
          releaseInfo = releaseInfoStr,
          imdbRating = (case vote_average content of
                          None \<Rightarrow> None
                        | Some v \<Rightarrow> if v = 0 then None
                                    else Some (toFixed1 (numberToString env) v)),
          genres = genreNames,
          links = (if length linkList > 0 then Some linkList else None),
          defaultVideoId = metaId\<rparr>)"

text \<open>
  Lines 146 to 149: the logo, fetched only with a logo-service key; a rejection of
  \<open>getFanartPoster\<close> is not caught here.
\<close>

definition logoStep :: "env \<Rightarrow> args \<Rightarrow> content \<Rightarrow> state
    \<Rightarrow> (error + string option) \<times> state" where
  "logoStep env a content s =
     (case (if truthy (fanartApiKey a) then fanartApiKey a else None) of
        None \<Rightarrow> (Inr None, s)
      | Some k \<Rightarrow>
          (getFanartPoster env (content_id content) (language a) k,
           emit (GetFanartPoster (content_id content) (language a) k) s))"

text \<open>
  Lines 151 to 162: the external id, fetched only with a database key; a failure of
  \<open>makeRequest\<close> is caught and logged, and the id stays \<open>null\<close>.
\<close>

definition imdbIdStep :: "env \<Rightarrow> args \<Rightarrow> content \<Rightarrow> state \<Rightarrow> string option \<times> state" where
  "imdbIdStep env a content s =
     (case (if truthy (tmdbApiKey a) then tmdbApiKey a else None) of
        None \<Rightarrow> (None, s)
      | Some k \<Rightarrow>
          (let address = ''https://api.themoviedb.org/3/''
                         @ (if catalogType a = ''series'' then ''tv'' else ''movie'')
                         @ ''/'' @ show_int (content_id content) @ ''/external_ids'';
               s1 = emit (MakeRequest address k) s
           in case makeRequest env address k of
                Inl e \<Rightarrow>
                  (None, emit (Log Err (''Error fetching external IDs for TMDB ID ''
                                 @ show_int (content_id content) @ '': '' @ message e)) s1)
              | Inr imdb_id \<Rightarrow> (imdb_id, s1)))"

text \<open>
  Lines 188 to 193: the genre names of the ids that resolve, or the empty list without
  ids; a rejection of a lookup is not caught here.
\<close>

definition genresStep :: "env \<Rightarrow> args \<Rightarrow> content \<Rightarrow> state
    \<Rightarrow> (error + string list) \<times> state" where
  "genresStep env a content s =
     (case genre_ids content of
        None \<Rightarrow> (Inr [], s)
      | Some ids \<Rightarrow>
          (case genrePromises env ids (catalogType a) (language a) s of
             (Inl e, s1) \<Rightarrow> (Inl e, s1)
           | (Inr names, s1) \<Rightarrow> (Inr (filterBoolean names), s1)))"

text \<open>
  The \<open>try\<close> block of the callback (lines 140 to 198): the poster, then the logo, then
  the external id, then the genre names. \<open>Inl\<close> is the error that reaches the
  \<open>catch\<close> of line 199.
\<close>

definition itemBody :: "env \<Rightarrow> args \<Rightarrow> content \<Rightarrow> state \<Rightarrow> (error + meta) \<times> state" where
  "itemBody env a content s =
     (case getPosterUrl env content (catalogType a) (language a) (rpdbApiKey a) s of
        (posterUrl, s1) \<Rightarrow>
          (case logoStep env a content s1 of
             (Inl e, s2) \<Rightarrow> (Inl e, s2)
           | (Inr logoUrl, s2) \<Rightarrow>
               (case imdbIdStep env a content s2 of
                  (imdbId, s3) \<Rightarrow>
                    (case genresStep env a content s3 of
                       (Inl e, s4) \<Rightarrow> (Inl e, s4)
                     | (Inr genreNames, s4) \<Rightarrow>
                         (Inr (mkMeta env a content posterUrl logoUrl imdbId genreNames),
                          s4)))))"

text \<open>
  The callback of \<open>filteredResults.map\<close> with its \<open>catch\<close> (lines 199 to 202): an
  error is logged and the item gives \<open>null\<close>.
\<close>

definition processItem :: "env \<Rightarrow> args \<Rightarrow> content \<Rightarrow> state \<Rightarrow> meta option \<times> state" where
  "processItem env a content s =
     (case itemBody env a content s of
        (Inr m, s1) \<Rightarrow> (Some m, s1)
      | (Inl e, s1) \<Rightarrow>
          (None, emit (Log Err (''Error processing content item ''
                         @ show_int (content_id content) @ '': '' @ message e)) s1))"

text \<open>
  \<open>Promise.all(filteredResults.map(...))\<close>: one result for each item, in the order
  of the items. The callbacks are run one after the other here, each to its end; in
  the program the calls of two items may interleave.
\<close>

fun itemPromises :: "env \<Rightarrow> args \<Rightarrow> content list \<Rightarrow> state \<Rightarrow> meta option list \<times> state" where
  "itemPromises env a [] s = ([], s)"
| "itemPromises env a (content # rest) s =
     (case processItem env a content s of
        (r, s1) \<Rightarrow>
          (case itemPromises env a rest s1 of
             (rs, s2) \<Rightarrow> (r # rs, s2)))"

text \<open>
  \<open>buildMetas\<close>: the results with the \<open>null\<close>s taken out. Every error of an item
  is caught in the callback, so the outer \<open>catch\<close>, which throws again, is reached
  by no list of items.
\<close>

definition buildMetas :: "env \<Rightarrow> args \<Rightarrow> content list \<Rightarrow> state \<Rightarrow> meta list \<times> state" where
  "buildMetas env a filteredResults s =
     (case itemPromises env a filteredResults s of
        (results, s1) \<Rightarrow> ([m. Some m \<leftarrow> results], s1))"

section \<open>Vocabulary of the properties\<close>

text \<open>The calls made between two states, and the two kinds of network call asked about.\<close>

definition newCalls :: "state \<Rightarrow> state \<Rightarrow> event list" where
  "newCalls s s' = drop (length (trace s)) (trace s')"

definition isAxiosPost :: "event \<Rightarrow> bool" where
  "isAxiosPost e = (case e of AxiosPost _ _ _ _ \<Rightarrow> True | _ \<Rightarrow> False)"

definition isAxiosHead :: "event \<Rightarrow> bool" where
  "isAxiosHead e = (case e of AxiosHead _ \<Rightarrow> True | _ \<Rightarrow> False)"

section \<open>Example inputs\<close>

text \<open>
  Collaborators that all fail: the probe is rejected with status 404, the cloud store
  has nothing, the render service is unreachable, the logo client has no logo, and the
  genre lookup of id 2 rejects.
\<close>

definition env_down :: env where
  "env_down = \<lparr>baseUrl = ''http://localhost:7000'',
      numberToString = (\<lambda>x. ''1e+21''),
      axios_head = (\<lambda>u. Inl (Error ''Request failed with status code 404'')),
      cloudStorage_getPosterUrl = (\<lambda>k. Inr None),
      axios_post = (\<lambda>u p r k. Inl (Error ''connect ECONNREFUSED'')),
      getFanartPoster = (\<lambda>i l k. Inr None),
      makeRequest = (\<lambda>u k. Inl (Error ''timeout'')),
      pool_query = (\<lambda>g t l. if g = 2 then Inl (Error ''connection terminated'')
                               else Inr [Some (''genre'' @ show_int g)])\<rparr>"

definition item1 :: content where
  "item1 = \<lparr>content_id = 550, title = Some ''Fight Club'', content_name = None,
      overview = Some ''An insomniac office worker.'', poster_path = Some ''/p550.jpg'',
      backdrop_path = None, vote_average = Some (7666 / 1000),
      release_date = Some ''1999-10-15'', first_air_date = None,
      genre_ids = Some [1, 3]\<rparr>"

definition s0 :: state where
  "s0 = \<lparr>poster_cache = Map.empty, trace = []\<rparr>"

text \<open>An item without a poster path, and one with a vote average of zero.\<close>

definition item_no_poster :: content where
  "item_no_poster = item1\<lparr>content_id := 551, poster_path := None\<rparr>"

definition item_unrated :: content where
  "item_unrated = item1\<lparr>content_id := 552, vote_average := Some 0\<rparr>"

text \<open>
  Collaborators that answer: the probe finds the poster, the cloud store holds a
  rendered poster for every key, the logo service has no logo, and the genre lookup
  of id 2 finds no row.
\<close>

definition env_up :: env where
  "env_up = \<lparr>baseUrl = ''http://localhost:7000'',
      numberToString = (\<lambda>x. ''1e+21''),
      axios_head = (\<lambda>u. Inr 200),
      cloudStorage_getPosterUrl = (\<lambda>k. Inr (Some (''https://cdn.example/'' @ k @ ''.jpg''))),
      axios_post = (\<lambda>u p r k. Inr \<lparr>success = True, data_url = Some ''https://cdn.example/new.jpg''\<rparr>),
      getFanartPoster = (\<lambda>i l k. Inr None),
      makeRequest = (\<lambda>u k. Inr (Some ''tt0137523'')),
      pool_query = (\<lambda>g t l. if g = 2 then Inr [] else Inr [Some (''genre'' @ show_int g)])\<rparr>"

text \<open>An item without a vote average, one with three genre ids, and a third item.\<close>

definition item_unvoted :: content where
  "item_unvoted = item1\<lparr>content_id := 553, vote_average := None\<rparr>"

definition item_genres :: content where
  "item_genres = item1\<lparr>content_id := 554, genre_ids := Some [1, 2, 3]\<rparr>"

definition item3 :: content where
  "item3 = item1\<lparr>content_id := 555\<rparr>"

text \<open>The parameters of a call for movies without any key, and with a logo-service key.\<close>

definition args_movies :: args where
  "args_movies = \<lparr>catalogType = ''movies'', language = ''en-US'', rpdbApiKey = None,
      fanartApiKey = None, addWatchedTraktBtn = None, hideTraktHistory = None,
      traktUsername = None, origin = ''https://addon.example'', tmdbApiKey = None\<rparr>"

definition args_logo :: args where
  "args_logo = args_movies\<lparr>fanartApiKey := Some ''fanart-key''\<rparr>"

text \<open>Failing collaborators, except that the cloud store holds a poster for every key.\<close>

definition env_cloud :: env where
  "env_cloud = env_down\<lparr>cloudStorage_getPosterUrl :=
                 (\<lambda>k. Inr (Some (''https://cdn.example/'' @ k @ ''.jpg'')))\<rparr>"

section \<open>Auxiliary facts\<close>

lemma floor_rat_numeral: "\<lfloor>numeral a / numeral b :: rat\<rfloor> = numeral a div numeral b"
  using floor_divide_of_int_eq [of "numeral a" "numeral b", where ?'a = rat] by simp

lemma js_split_nonempty: "js_split c s \<noteq> []"
  by (induction s) (auto split: list.splits)

lemma split0_takeWhile: "split0 c s = takeWhile (\<lambda>x. x \<noteq> c) s"
  unfolding split0_def
  by (induction s) (auto simp: js_split_nonempty split: list.splits)

lemma show_nat_digit: "d < 10 \<Longrightarrow> show_nat d = [''0123456789'' ! d]"
  by (simp add: show_nat.simps)

lemma toFixed1_nearest:
  assumes "\<bar>x\<bar> < 10 ^ 21"
  shows "\<exists>n d. d < 10 \<and> \<bar>(of_nat n * 10 + of_nat d) / 10 - \<bar>x\<bar>\<bar> \<le> 1 / 20
           \<and> toFixed1 f x = (if x < 0 then ''-'' else '''') @ show_nat n @ ''.''
                               @ [''0123456789'' ! d]"
proof -
  define k where "k = nat \<lfloor>\<bar>x\<bar> * 10 + 1 / 2\<rfloor>"
  have nonneg: "0 \<le> \<lfloor>\<bar>x\<bar> * 10 + 1 / 2\<rfloor>"
    by (simp add: zero_le_floor)
  then have k: "(of_nat k :: rat) = of_int \<lfloor>\<bar>x\<bar> * 10 + 1 / 2\<rfloor>"
    by (simp add: k_def)
  have lo: "of_int \<lfloor>\<bar>x\<bar> * 10 + 1 / 2\<rfloor> \<le> \<bar>x\<bar> * 10 + 1 / 2"
    by (rule of_int_floor_le)
  have hi: "\<bar>x\<bar> * 10 + 1 / 2 < of_int \<lfloor>\<bar>x\<bar> * 10 + 1 / 2\<rfloor> + 1"
    by (rule floor_correct [THEN conjunct2, simplified])
  have split: "(of_nat (k div 10) * 10 + of_nat (k mod 10) :: rat) = of_nat k"
    by (metis mult.commute of_nat_add of_nat_mult of_nat_numeral div_mult_mod_eq)
  have near: "\<bar>(of_nat (k div 10) * 10 + of_nat (k mod 10)) / 10 - \<bar>x\<bar>\<bar> \<le> (1 / 20 :: rat)"
    unfolding split k using lo hi by linarith
  have str: "toFixed1 f x = (if x < 0 then ''-'' else '''') @ show_nat (k div 10) @ ''.''
                               @ [''0123456789'' ! (k mod 10)]"
    using assms by (simp add: toFixed1_def Let_def k_def [symmetric] show_nat_digit)
  show ?thesis
    using near str by (intro exI [of _ "k div 10"] exI [of _ "k mod 10"]) simp
qed

lemma toFixed1_example: "toFixed1 f (3833 / 500) = ''7.7''"
  by (simp add: toFixed1_def show_nat.simps Let_def floor_rat_numeral)

lemma trace_emit: "trace (emit e s) = trace s @ [e]"
  by (simp add: emit_def)

lemma cache_emit: "poster_cache (emit e s) = poster_cache s"
  by (simp add: emit_def)

section \<open>Facts about poster resolution\<close>

lemma cloudBlock_cache: "poster_cache (snd (cloudBlock env content path s)) = poster_cache s"
  by (simp add: cloudBlock_def Let_def cache_emit split: sum.splits option.splits)

lemma cloudBlock_hit:
  assumes "cloudStorage_getPosterUrl env (contentId env content) = Inr (Some u)" "u \<noteq> []"
  shows "cloudBlock env content path s
           = (u, emit (Log Debug (''Using existing cloud poster for '' @ contentId env content))
                   (emit (CloudGetPosterUrl (contentId env content)) s))"
  using assms by (simp add: cloudBlock_def Let_def truthy_def)

lemma cloudBlock_queries_key:
  "\<exists>evs. trace (snd (cloudBlock env content path s))
           = trace s @ CloudGetPosterUrl (contentId env content) # evs"
  by (simp add: cloudBlock_def Let_def trace_emit split: sum.splits option.splits)

lemma rpdbBlock_cached:
  assumes "poster_cache s (''poster:'' @ show_int (content_id content)) = Some u"
  shows "rpdbBlock env content ct lang k s
           = (Some u, emit (Log Debug (''Using cached poster URL for id '' @ ''poster:''
                                         @ show_int (content_id content)))
                        (emit (GetCachedPoster (''poster:'' @ show_int (content_id content))) s))"
  using assms by (simp add: rpdbBlock_def getCachedPoster_def Let_def)

lemma rpdbBlock_result:
  "fst (rpdbBlock env content ct lang k s)
     = poster_cache (snd (rpdbBlock env content ct lang k s))
         (''poster:'' @ show_int (content_id content))"
  by (simp add: rpdbBlock_def getCachedPoster_def setCachedPoster_def Let_def cache_emit
           split: sum.splits option.splits)

lemma rpdbBlock_falls_through:
  assumes "poster_cache s (''poster:'' @ show_int (content_id content)) = None"
      and "axios_head env (getRpdbPoster ct (content_id content) lang k) \<noteq> Inr 200"
  shows "\<exists>evs. rpdbBlock env content ct lang k s = (None, s\<lparr>trace := trace s @ evs\<rparr>)
               \<and> filter isAxiosPost evs = []"
  using assms
  by (auto simp: rpdbBlock_def getCachedPoster_def Let_def emit_def isAxiosPost_def
           split: sum.splits option.splits)

section \<open>Facts about metadata assembly\<close>

lemma getGenreName_fst:
  "fst (getGenreName env g type lang s)
     = (case pool_query env g (if type = ''series'' then ''tv'' else ''movie'') lang of
          Inl err \<Rightarrow> Inl err
        | Inr rows \<Rightarrow> Inr (case rows of [] \<Rightarrow> None | row # _ \<Rightarrow> row))"
  by (simp add: getGenreName_def Let_def split: sum.splits)

lemma getGenreName_indep:
  "fst (getGenreName env g type lang s) = fst (getGenreName env g type lang s')"
  by (simp add: getGenreName_fst)

lemma genrePromises_indep:
  "fst (genrePromises env ids type lang s) = fst (genrePromises env ids type lang s')"
proof (induction ids arbitrary: s s')
  case Nil
  show ?case by simp
next
  case (Cons g ids)
  have a: "fst (getGenreName env g type lang s) = fst (getGenreName env g type lang s')"
    by (rule getGenreName_indep)
  have b: "fst (genrePromises env ids type lang (snd (getGenreName env g type lang s)))
             = fst (genrePromises env ids type lang (snd (getGenreName env g type lang s')))"
    by (rule Cons.IH)
  show ?case
    by (simp add: case_prod_beta a b cong: sum.case_cong)
qed

lemma genrePromises_resolved:
  assumes "\<forall>g \<in> set ids. \<exists>n. fst (getGenreName env g type lang t) = Inr n"
  shows "fst (genrePromises env ids type lang s)
           = Inr (map (\<lambda>g. case fst (getGenreName env g type lang t) of Inr n \<Rightarrow> n | Inl e \<Rightarrow> None) ids)"
  using assms
proof (induction ids arbitrary: s)
  case Nil
  show ?case by simp
next
  case (Cons g ids)
  obtain n where n: "fst (getGenreName env g type lang t) = Inr n"
    using Cons.prems by auto
  then have n': "fst (getGenreName env g type lang s) = Inr n"
    using getGenreName_indep [of env g type lang s t] by simp
  show ?case
    using Cons.IH [of "snd (getGenreName env g type lang s)"] Cons.prems n n'
    by (simp add: case_prod_beta)
qed

lemma genrePromises_rejected:
  assumes "g \<in> set ids" "fst (getGenreName env g type lang t) = Inl e"
  shows "\<exists>e'. fst (genrePromises env ids type lang s) = Inl e'"
  using assms
proof (induction ids arbitrary: s)
  case Nil
  then show ?case by simp
next
  case (Cons h ids)
  show ?case
  proof (cases "fst (getGenreName env h type lang s)")
    case (Inl e1)
    then show ?thesis by (simp add: case_prod_beta)
  next
    case (Inr n)
    then have "h \<noteq> g"
      using Cons.prems(2) getGenreName_indep [of env h type lang s t] by auto
    then have "g \<in> set ids" using Cons.prems(1) by simp
    from Cons.IH [OF this Cons.prems(2), of "snd (getGenreName env h type lang s)"]
    show ?thesis using Inr by (auto simp: case_prod_beta)
  qed
qed

lemma logoStep_indep: "fst (logoStep env a content s) = fst (logoStep env a content s')"
  by (simp add: logoStep_def split: option.splits)

lemma imdbIdStep_indep: "fst (imdbIdStep env a content s) = fst (imdbIdStep env a content s')"
  by (simp add: imdbIdStep_def Let_def split: option.splits sum.splits)

lemma genresStep_indep: "fst (genresStep env a content s) = fst (genresStep env a content s')"
proof (cases "genre_ids content")
  case None
  then show ?thesis by (simp add: genresStep_def)
next
  case (Some ids)
  show ?thesis
    using genrePromises_indep [of env ids "catalogType a" "language a" s s'] Some
    by (simp add: genresStep_def case_prod_beta split: sum.splits)
qed

lemma itemBody_fst:
  "fst (itemBody env a content s)
     = (case fst (logoStep env a content s) of
          Inl e \<Rightarrow> Inl e
        | Inr logoUrl \<Rightarrow>
            (case fst (genresStep env a content s) of
               Inl e \<Rightarrow> Inl e
             | Inr genreNames \<Rightarrow>
                 Inr (mkMeta env a content
                        (fst (getPosterUrl env content (catalogType a) (language a) (rpdbApiKey a) s))
                        logoUrl (fst (imdbIdStep env a content s)) genreNames)))"
proof -
  let ?s1 = "snd (getPosterUrl env content (catalogType a) (language a) (rpdbApiKey a) s)"
  let ?s2 = "snd (logoStep env a content ?s1)"
  let ?s3 = "snd (imdbIdStep env a content ?s2)"
  have l: "fst (logoStep env a content ?s1) = fst (logoStep env a content s)"
    by (rule logoStep_indep)
  have i: "fst (imdbIdStep env a content ?s2) = fst (imdbIdStep env a content s)"
    by (rule imdbIdStep_indep)
  have g: "fst (genresStep env a content ?s3) = fst (genresStep env a content s)"
    by (rule genresStep_indep)
  show ?thesis
    unfolding l [symmetric] i [symmetric] g [symmetric]
    by (simp add: itemBody_def case_prod_beta split: sum.splits prod.splits)
qed

lemma processItem_fst:
  "fst (processItem env a content s)
     = (case fst (itemBody env a content s) of Inl e \<Rightarrow> None | Inr m \<Rightarrow> Some m)"
  by (simp add: processItem_def case_prod_beta split: sum.splits prod.splits)

lemma imdbRating_mkMeta:
  "imdbRating (mkMeta env a content p l i g)
     = (case vote_average content of
          None \<Rightarrow> None
        | Some v \<Rightarrow> if v = 0 then None else Some (toFixed1 (numberToString env) v))"
  by (simp add: mkMeta_def Let_def)

lemma processItem_imdbRating:
  assumes "fst (processItem env a content s) = Some m"
  shows "imdbRating m
     = (case vote_average content of
          None \<Rightarrow> None
        | Some v \<Rightarrow> if v = 0 then None else Some (toFixed1 (numberToString env) v))"
proof -
  obtain p l i g where "m = mkMeta env a content p l i g"
    using assms by (auto simp: processItem_fst itemBody_fst split: sum.splits)
  then show ?thesis by (simp only: imdbRating_mkMeta)
qed

lemma processItem_produces:
  assumes "\<forall>e. fst (logoStep env a content s) \<noteq> Inl e"
      and "\<forall>e. fst (genresStep env a content s) \<noteq> Inl e"
  shows "\<exists>m. fst (processItem env a content s) = Some m"
  using assms by (auto simp: processItem_fst itemBody_fst split: sum.splits)

lemma logoStep_no_key: "fanartApiKey a = None \<Longrightarrow> fst (logoStep env a content s) = Inr None"
  by (simp add: logoStep_def truthy_def)

lemma itemBody_isl:
  "isl (fst (itemBody env a content s)) = isl (fst (itemBody env a content s'))"
  unfolding itemBody_fst
  using logoStep_indep [of env a content s s'] genresStep_indep [of env a content s s']
  by (simp split: sum.splits)

lemma buildMetas_Nil: "buildMetas env a [] s = ([], s)"
  by (simp add: buildMetas_def)

lemma buildMetas_Cons:
  "buildMetas env a (c # cs) s
     = ((case fst (processItem env a c s) of None \<Rightarrow> [] | Some m \<Rightarrow> [m])
          @ fst (buildMetas env a cs (snd (processItem env a c s))),
        snd (buildMetas env a cs (snd (processItem env a c s))))"
  by (simp add: buildMetas_def case_prod_beta split: option.splits)

lemma buildMetas_append:
  "buildMetas env a (xs @ ys) s
     = (fst (buildMetas env a xs s) @ fst (buildMetas env a ys (snd (buildMetas env a xs s))),
        snd (buildMetas env a ys (snd (buildMetas env a xs s))))"
proof (induction xs arbitrary: s)
  case Nil
  show ?case by (simp add: buildMetas_Nil)
next
  case (Cons c xs)
  show ?case
    by (simp add: buildMetas_Cons Cons.IH)
qed

lemma buildMetas_length:
  "length (fst (buildMetas env a cs s))
     = length (filter (\<lambda>c. \<not> isl (fst (itemBody env a c s))) cs)"
proof (induction cs arbitrary: s)
  case Nil
  show ?case by (simp add: buildMetas_Nil)
next
  case (Cons c cs)
  have "(\<lambda>c. \<not> isl (fst (itemBody env a c (snd (processItem env a c0 s)))))
          = (\<lambda>c. \<not> isl (fst (itemBody env a c s)))" for c0
    using itemBody_isl by blast
  then show ?case
    using Cons.IH [of "snd (processItem env a c s)"]
    by (simp add: buildMetas_Cons processItem_fst split: sum.splits)
qed

lemma meta_id_mkMeta_no_imdb:
  "meta_id (mkMeta env a content p l None g) = ''tmdb:'' @ show_int (content_id content)"
  by (simp add: mkMeta_def Let_def truthy_def)

lemma imdbIdStep_no_key: "tmdbApiKey a = None \<Longrightarrow> fst (imdbIdStep env a content s) = None"
  by (simp add: imdbIdStep_def truthy_def)

lemma logo_mkMeta: "logo (mkMeta env a content p l i g) = js_or l None"
  by (simp add: mkMeta_def Let_def)

lemma genres_mkMeta: "genres (mkMeta env a content p l i g) = g"
  by (simp add: mkMeta_def Let_def)

lemma mkMeta_fanart:
  "mkMeta env (a\<lparr>fanartApiKey := k\<rparr>) content p l i g = mkMeta env a content p l i g"
  by (simp add: mkMeta_def Let_def cong: option.case_cong if_cong)

lemma mkMeta_falsy_logo:
  "\<not> truthy l \<Longrightarrow> mkMeta env a content p l i g = mkMeta env a content p None i g"
  by (simp add: mkMeta_def js_or_def truthy_def)

lemma steps_fanart:
  "fst (imdbIdStep env (a\<lparr>fanartApiKey := k\<rparr>) content s) = fst (imdbIdStep env a content s)"
  "fst (genresStep env (a\<lparr>fanartApiKey := k\<rparr>) content s) = fst (genresStep env a content s)"
  by (simp_all add: imdbIdStep_def genresStep_def split: option.splits)

lemma filterBoolean_map:
  "filterBoolean (map f ids)
     = List.map_filter (\<lambda>g. case f g of None \<Rightarrow> None | Some n \<Rightarrow> if n = [] then None else Some n) ids"
  by (induction ids) (auto simp: filterBoolean_def List.map_filter_simps split: option.splits)

text \<open>The genre step on the example inputs.\<close>

lemma genresStep_up:
  "genre_ids content = Some [1, 3] \<Longrightarrow>
     fst (genresStep env_up a content s) = Inr [''genre1'', ''genre3'']"
  by (simp add: genresStep_def getGenreName_def Let_def case_prod_beta env_up_def
                filterBoolean_def show_int_def show_nat.simps)

lemma genresStep_down_ok:
  "genre_ids content = Some [1, 3] \<Longrightarrow>
     fst (genresStep env_down a content s) = Inr [''genre1'', ''genre3'']"
  by (simp add: genresStep_def getGenreName_def Let_def case_prod_beta env_down_def
                filterBoolean_def show_int_def show_nat.simps)

lemma genresStep_down_rejected:
  "genre_ids content = Some [1, 2, 3] \<Longrightarrow>
     fst (genresStep env_down a content s) = Inl (Error ''connection terminated'')"
  by (simp add: genresStep_def getGenreName_def Let_def case_prod_beta env_down_def)

section \<open>The tiering rule of the paid-service URL\<close>

text \<open>
  C4. For every kind, id, language tag and key, the URL is the address of the poster
  without a language parameter exactly when the part of the key before its first dash
  is \<open>t0\<close> or \<open>t1\<close>; for every other key it is that address followed by
  \<open>&lang=\<close> and the part of the language tag before its first dash.
\<close>

theorem getRpdbPoster_language:
  "(let tier = takeWhile (\<lambda>c. c \<noteq> CHR ''-'') rpdbkey;
        primary = takeWhile (\<lambda>c. c \<noteq> CHR ''-'') lang;
        base = ''https://api.ratingposterdb.com/'' @ rpdbkey @ ''/tmdb/poster-default/''
               @ type @ ''-'' @ show_int ident @ ''.jpg?fallback=true''
    in getRpdbPoster type ident lang rpdbkey
         = (if tier = ''t0'' \<or> tier = ''t1'' then base else base @ ''&lang='' @ primary)
       \<and> ((getRpdbPoster type ident lang rpdbkey = base) = (tier = ''t0'' \<or> tier = ''t1'')))"
  by (simp add: getRpdbPoster_def split0_takeWhile Let_def)

theorem getRpdbPoster_language_witness:
  "getRpdbPoster ''movie'' 550 ''en-US'' ''t2-abc-def''
     = ''https://api.ratingposterdb.com/t2-abc-def/tmdb/poster-default/movie-550.jpg?fallback=true&lang=en''
   \<and> getRpdbPoster ''movie'' 550 ''en-US'' ''t1-abc-def''
     = ''https://api.ratingposterdb.com/t1-abc-def/tmdb/poster-default/movie-550.jpg?fallback=true''"
  using getRpdbPoster_language [of "''t2-abc-def''" "''en-US''" "''movie''" 550]
        getRpdbPoster_language [of "''t1-abc-def''" "''en-US''" "''movie''" 550]
  by (simp add: Let_def show_int_def show_nat.simps)

section \<open>Poster resolution\<close>

text \<open>
  C3. For every item whose poster path is absent (\<open>null\<close>, \<open>undefined\<close> or the
  empty string), \<open>getPosterUrl\<close> returns \<open>null\<close> and leaves the state as it was:
  the Poster Cache is neither read nor written and no call is made.
\<close>

theorem getPosterUrl_no_poster_path:
  "\<not> truthy (poster_path content) \<Longrightarrow>
     getPosterUrl env content ct lang key s = (None, s)"
  by (simp add: getPosterUrl_def)

theorem getPosterUrl_no_poster_path_witness:
  "\<not> truthy (poster_path item_no_poster)
   \<and> getPosterUrl env_up item_no_poster ''movie'' ''en-US'' (Some ''t2-key'') s0 = (None, s0)"
  using getPosterUrl_no_poster_path
          [of item_no_poster env_up "''movie''" "''en-US''" "Some ''t2-key''" s0]
  by (simp add: item_no_poster_def item1_def truthy_def)

text \<open>
  C2. For every item with a poster path, \<open>getPosterUrl\<close> never returns \<open>null\<close>;
  and when the paid-service probe fails (the cache has no entry and the answer is a
  rejection or a status other than 200; or no key is set, so that no probe is made),
  the cloud store reports no poster and the render call fails (a rejection, or an
  answer without success or without a URL), the result is
  \<open>https://image.tmdb.org/t/p/w500\<close> followed by the poster path.
\<close>

theorem getPosterUrl_fallback:
  assumes path: "poster_path content = Some path" "path \<noteq> []"
  shows "fst (getPosterUrl env content ct lang key s) \<noteq> None
    \<and> ((\<forall>k. key = Some k \<and> k \<noteq> [] \<longrightarrow>
            poster_cache s (''poster:'' @ show_int (content_id content)) = None
          \<and> axios_head env (getRpdbPoster ct (content_id content) lang k) \<noteq> Inr 200)
       \<and> (\<forall>u. cloudStorage_getPosterUrl env (contentId env content) = Inr (Some u) \<longrightarrow> u = [])
       \<and> (\<forall>d. axios_post env (baseUrl env @ ''/cache-rated-poster'')
                  (''https://image.tmdb.org/t/p/w500'' @ path) (rating env content)
                  (contentId env content) = Inr d
                \<longrightarrow> \<not> (success d \<and> truthy (data_url d)))
       \<longrightarrow> fst (getPosterUrl env content ct lang key s)
             = Some (''https://image.tmdb.org/t/p/w500'' @ path))"
proof (intro conjI impI)
  show "fst (getPosterUrl env content ct lang key s) \<noteq> None"
    using path
    by (simp add: getPosterUrl_def truthy_def split: option.splits prod.splits)
next
  assume h: "(\<forall>k. key = Some k \<and> k \<noteq> [] \<longrightarrow>
            poster_cache s (''poster:'' @ show_int (content_id content)) = None
          \<and> axios_head env (getRpdbPoster ct (content_id content) lang k) \<noteq> Inr 200)
       \<and> (\<forall>u. cloudStorage_getPosterUrl env (contentId env content) = Inr (Some u) \<longrightarrow> u = [])
       \<and> (\<forall>d. axios_post env (baseUrl env @ ''/cache-rated-poster'')
                  (''https://image.tmdb.org/t/p/w500'' @ path) (rating env content)
                  (contentId env content) = Inr d
                \<longrightarrow> \<not> (success d \<and> truthy (data_url d)))"
  have cloud: "fst (cloudBlock env content path t) = ''https://image.tmdb.org/t/p/w500'' @ path"
    for t
    using h
    by (auto simp: cloudBlock_def Let_def truthy_def split: sum.splits option.splits)
  show "fst (getPosterUrl env content ct lang key s)
          = Some (''https://image.tmdb.org/t/p/w500'' @ path)"
  proof (cases "truthy key")
    case False
    with path show ?thesis
      using cloud [of s]
      by (auto simp: getPosterUrl_def truthy_def case_prod_beta split: option.splits)
  next
    case True
    then obtain k where k: "key = Some k" "k \<noteq> []"
      by (auto simp: truthy_def split: option.splits)
    have miss: "poster_cache s (''poster:'' @ show_int (content_id content)) = None"
      and fail: "axios_head env (getRpdbPoster ct (content_id content) lang k) \<noteq> Inr 200"
      using h k by simp_all
    obtain evs where r: "rpdbBlock env content ct lang k s = (None, s\<lparr>trace := trace s @ evs\<rparr>)"
      using rpdbBlock_falls_through [OF miss fail] by auto
    show ?thesis
      using path k r cloud [of "s\<lparr>trace := trace s @ evs\<rparr>"]
      by (simp add: getPosterUrl_def truthy_def case_prod_beta)
  qed
qed

theorem getPosterUrl_fallback_witness:
  "poster_path item1 = Some ''/p550.jpg''
   \<and> axios_head env_down (getRpdbPoster ''movie'' 550 ''en-US'' ''t2-key'')
       = Inl (Error ''Request failed with status code 404'')
   \<and> fst (getPosterUrl env_down item1 ''movie'' ''en-US'' (Some ''t2-key'') s0)
       = Some ''https://image.tmdb.org/t/p/w500/p550.jpg''"
  using getPosterUrl_fallback
          [of item1 "''/p550.jpg''" env_down "''movie''" "''en-US''" "Some ''t2-key''" s0]
  by (simp add: item1_def env_down_def s0_def)

text \<open>
  C9. For every item that reaches the cloud tier (it has a poster path, and either no
  key is set or the cache has no entry and the probe does not answer 200), when the
  Cloud Poster Store returns a poster for the key of the item, \<open>getPosterUrl\<close>
  returns that URL, and none of the calls it makes is the render call.
\<close>

theorem getPosterUrl_cloud_hit:
  assumes path: "poster_path content = Some path" "path \<noteq> []"
      and reach: "\<forall>k. key = Some k \<and> k \<noteq> [] \<longrightarrow>
                    poster_cache s (''poster:'' @ show_int (content_id content)) = None
                  \<and> axios_head env (getRpdbPoster ct (content_id content) lang k) \<noteq> Inr 200"
      and hit: "cloudStorage_getPosterUrl env (contentId env content) = Inr (Some u)" "u \<noteq> []"
  shows "fst (getPosterUrl env content ct lang key s) = Some u
       \<and> trace (snd (getPosterUrl env content ct lang key s))
           = trace s @ newCalls s (snd (getPosterUrl env content ct lang key s))
       \<and> filter isAxiosPost (newCalls s (snd (getPosterUrl env content ct lang key s))) = []"
proof (cases "truthy key")
  case False
  then show ?thesis
    using path cloudBlock_hit [OF hit, of path s]
    by (auto simp: getPosterUrl_def truthy_def newCalls_def trace_emit isAxiosPost_def
             split: option.splits)
next
  case True
  then obtain k where k: "key = Some k" "k \<noteq> []"
    by (auto simp: truthy_def split: option.splits)
  have miss: "poster_cache s (''poster:'' @ show_int (content_id content)) = None"
    and fail: "axios_head env (getRpdbPoster ct (content_id content) lang k) \<noteq> Inr 200"
    using reach k by simp_all
  obtain evs where r: "rpdbBlock env content ct lang k s = (None, s\<lparr>trace := trace s @ evs\<rparr>)"
      and evs: "filter isAxiosPost evs = []"
    using rpdbBlock_falls_through [OF miss fail] by auto
  show ?thesis
    using path k r evs cloudBlock_hit [OF hit, of path "s\<lparr>trace := trace s @ evs\<rparr>"]
    by (simp add: getPosterUrl_def truthy_def newCalls_def trace_emit isAxiosPost_def)
qed

theorem getPosterUrl_cloud_hit_witness:
  "axios_head env_cloud (getRpdbPoster ''movies'' 550 ''en-US'' ''t2-key'')
     = Inl (Error ''Request failed with status code 404'')
   \<and> fst (getPosterUrl env_cloud item1 ''movies'' ''en-US'' (Some ''t2-key'') s0)
       = Some ''https://cdn.example/550-7.7.jpg''
   \<and> filter isAxiosPost
        (newCalls s0 (snd (getPosterUrl env_cloud item1 ''movies'' ''en-US''
                             (Some ''t2-key'') s0))) = []"
  using getPosterUrl_cloud_hit
          [where content = item1 and path = "''/p550.jpg''" and key = "Some ''t2-key''"
             and s = s0 and env = env_cloud and ct = "''movies''" and lang = "''en-US''"
             and u = "''https://cdn.example/550-7.7.jpg''"]
  by (simp add: item1_def env_cloud_def env_down_def s0_def contentId_def rating_def
                toFixed1_def Let_def floor_rat_numeral show_int_def show_nat.simps)

text \<open>
  C8. For every item with a poster path and every key that is set: once a resolution
  has left an entry for the item's id in the Poster Cache, a second resolution of that
  id returns the URL of the first and does nothing but read the cache and log; it
  makes no probe, whatever the collaborators would answer by then.
\<close>

theorem getPosterUrl_cached_again:
  assumes first: "getPosterUrl env content ct lang (Some k) s = (r1, s1)"
      and path: "truthy (poster_path content)" and k: "k \<noteq> []"
      and warmed: "poster_cache s1 (''poster:'' @ show_int (content_id content)) \<noteq> None"
      and again: "content_id content' = content_id content" "truthy (poster_path content')"
                 "k' \<noteq> []"
  shows "getPosterUrl env' content' ct' lang' (Some k') s1
           = (r1, emit (Log Debug (''Using cached poster URL for id '' @ ''poster:''
                                     @ show_int (content_id content)))
                    (emit (GetCachedPoster (''poster:'' @ show_int (content_id content))) s1))
       \<and> filter isAxiosHead
           (newCalls s1 (snd (getPosterUrl env' content' ct' lang' (Some k') s1))) = []"
proof -
  obtain path0 where p0: "poster_path content = Some path0" "path0 \<noteq> []"
    using path by (auto simp: truthy_def split: option.splits)
  have r1: "r1 = poster_cache s1 (''poster:'' @ show_int (content_id content))"
  proof (cases "fst (rpdbBlock env content ct lang k s)")
    case None
    then have "s1 = snd (cloudBlock env content path0 (snd (rpdbBlock env content ct lang k s)))"
      using first p0 k by (simp add: getPosterUrl_def truthy_def case_prod_beta)
    then have "poster_cache s1 = poster_cache (snd (rpdbBlock env content ct lang k s))"
      by (simp add: cloudBlock_cache)
    with None warmed show ?thesis
      using rpdbBlock_result [of env content ct lang k s] by simp
  next
    case (Some u)
    then have "r1 = Some u" "s1 = snd (rpdbBlock env content ct lang k s)"
      using first p0 k by (auto simp: getPosterUrl_def truthy_def case_prod_beta)
    with Some show ?thesis
      using rpdbBlock_result [of env content ct lang k s] by simp
  qed
  then obtain u where u: "poster_cache s1 (''poster:'' @ show_int (content_id content')) = Some u"
      "r1 = Some u"
    using warmed again by auto
  have "getPosterUrl env' content' ct' lang' (Some k') s1
          = (r1, emit (Log Debug (''Using cached poster URL for id '' @ ''poster:''
                                    @ show_int (content_id content)))
                   (emit (GetCachedPoster (''poster:'' @ show_int (content_id content))) s1))"
    using again u rpdbBlock_cached [OF u(1), of env' ct' lang' k']
    by (auto simp: getPosterUrl_def truthy_def split: option.splits)
  then show ?thesis
    by (simp add: newCalls_def trace_emit isAxiosHead_def)
qed

theorem getPosterUrl_cached_again_witness:
  "fst (getPosterUrl env_up item1 ''movie'' ''en-US'' (Some ''t2-key'') s0)
     = Some ''https://api.ratingposterdb.com/t2-key/tmdb/poster-default/movie-550.jpg?fallback=true&lang=en''
   \<and> fst (getPosterUrl env_down item1 ''movie'' ''en-US'' (Some ''t2-key'')
            (snd (getPosterUrl env_up item1 ''movie'' ''en-US'' (Some ''t2-key'') s0)))
     = Some ''https://api.ratingposterdb.com/t2-key/tmdb/poster-default/movie-550.jpg?fallback=true&lang=en''"
proof -
  let ?u = "''https://api.ratingposterdb.com/t2-key/tmdb/poster-default/movie-550.jpg?fallback=true&lang=en''"
  let ?s1 = "snd (getPosterUrl env_up item1 ''movie'' ''en-US'' (Some ''t2-key'') s0)"
  have run: "getPosterUrl env_up item1 ''movie'' ''en-US'' (Some ''t2-key'') s0
               = (Some ?u, setCachedPoster ''poster:550'' ?u
                    (emit (Log Debug ''RPDB poster found for id poster:550'')
                      (emit (AxiosHead ?u) (emit (GetCachedPoster ''poster:550'') s0))))"
    by (simp add: getPosterUrl_def rpdbBlock_def getCachedPoster_def Let_def truthy_def
                  item1_def env_up_def s0_def getRpdbPoster_def split0_takeWhile
                  show_int_def show_nat.simps emit_def)
  have first: "getPosterUrl env_up item1 ''movie'' ''en-US'' (Some ''t2-key'') s0 = (Some ?u, ?s1)"
    by (simp add: run)
  have id: "''poster:'' @ show_int (content_id item1) = ''poster:550''"
    by (simp add: item1_def show_int_def show_nat.simps)
  have warmed: "poster_cache ?s1 (''poster:'' @ show_int (content_id item1)) \<noteq> None"
    unfolding id by (simp add: run setCachedPoster_def cache_emit)
  have path: "truthy (poster_path item1)"
    by (simp add: item1_def truthy_def)
  show ?thesis
    using getPosterUrl_cached_again [OF first path _ warmed refl path, of "''t2-key''" env_down
                                       "''movie''" "''en-US''"]
    by (simp add: run)
qed

section \<open>Ratings\<close>

text \<open>
  C10. For every item whose vote average is exactly 0, the rating counts as absent:
  the key of the Cloud Poster Store ends in the marker \<open>NR\<close> (and that is the key
  the store is asked for when the cloud tier is reached), and the rating field of the
  item's record is \<open>null\<close>.
\<close>

theorem zero_vote_average_unrated:
  assumes "vote_average content = Some 0"
  shows "rating env content = ''NR''
       \<and> contentId env content = show_int (content_id content) @ ''-NR''
       \<and> (\<forall>path. poster_path content = Some path \<and> path \<noteq> [] \<and> \<not> truthy key \<longrightarrow>
             CloudGetPosterUrl (show_int (content_id content) @ ''-NR'')
               \<in> set (newCalls s (snd (getPosterUrl env content ct lang key s))))
       \<and> (\<forall>m. fst (processItem env a content s) = Some m \<longrightarrow> imdbRating m = None)"
proof (intro conjI allI impI)
  show r: "rating env content = ''NR''"
    using assms by (simp add: rating_def)
  show c: "contentId env content = show_int (content_id content) @ ''-NR''"
    by (simp add: contentId_def r)
  show "imdbRating m = None" if "fst (processItem env a content s) = Some m" for m
    using processItem_imdbRating [OF that] assms by simp
  show "CloudGetPosterUrl (show_int (content_id content) @ ''-NR'')
          \<in> set (newCalls s (snd (getPosterUrl env content ct lang key s)))"
    if h: "poster_path content = Some path \<and> path \<noteq> [] \<and> \<not> truthy key" for path
  proof -
    have "snd (getPosterUrl env content ct lang key s) = snd (cloudBlock env content path s)"
      using h by (simp add: getPosterUrl_def truthy_def case_prod_beta)
    then show ?thesis
      using cloudBlock_queries_key [of env content path s] c
      by (auto simp: newCalls_def)
  qed
qed

theorem zero_vote_average_unrated_witness:
  "vote_average item_unrated = Some 0
   \<and> contentId env_up item_unrated = ''552-NR''
   \<and> CloudGetPosterUrl ''552-NR''
        \<in> set (newCalls s0 (snd (getPosterUrl env_up item_unrated ''movies'' ''en-US'' None s0)))
   \<and> (\<exists>m. fst (processItem env_up args_movies item_unrated s0) = Some m \<and> imdbRating m = None)"
proof -
  have v: "vote_average item_unrated = Some 0"
    by (simp add: item_unrated_def item1_def)
  have p: "poster_path item_unrated = Some ''/p550.jpg''"
    by (simp add: item_unrated_def item1_def)
  have i: "show_int (content_id item_unrated) = ''552''"
    by (simp add: item_unrated_def item1_def show_int_def show_nat.simps)
  have "fst (genresStep env_up args_movies item_unrated s0) = Inr [''genre1'', ''genre3'']"
    by (rule genresStep_up) (simp add: item_unrated_def item1_def)
  moreover have "fst (logoStep env_up args_movies item_unrated s0) = Inr None"
    by (rule logoStep_no_key) (simp add: args_movies_def)
  ultimately obtain m where m: "fst (processItem env_up args_movies item_unrated s0) = Some m"
    using processItem_produces [of env_up args_movies item_unrated s0] by auto
  show ?thesis
    using zero_vote_average_unrated [OF v, of env_up None s0 "''movies''" "''en-US''" args_movies]
          p m v
    by (simp add: i truthy_def)
qed

text \<open>
  C1, as the program has it. For every item whose vote average is present and not
  zero, the rating in the key of the Cloud Poster Store and the rating field of the
  item's record are both \<open>toFixed(1)\<close> of the vote average, which below \<open>10^21\<close>
  is the nearest number with one decimal place, written with one digit after the
  point. When the vote average is absent or zero, the key carries the marker \<open>NR\<close>
  and the rating field of the record is \<open>null\<close>.
\<close>

theorem rating_formatting:
  "(case vote_average content of
      None \<Rightarrow>
        rating env content = ''NR''
        \<and> (\<forall>m. fst (processItem env a content s) = Some m \<longrightarrow> imdbRating m = None)
    | Some v \<Rightarrow>
        if v = 0
        then rating env content = ''NR''
             \<and> (\<forall>m. fst (processItem env a content s) = Some m \<longrightarrow> imdbRating m = None)
        else rating env content = toFixed1 (numberToString env) v
             \<and> (\<forall>m. fst (processItem env a content s) = Some m \<longrightarrow>
                    imdbRating m = Some (toFixed1 (numberToString env) v))
             \<and> (\<bar>v\<bar> < 10 ^ 21 \<longrightarrow>
                  (\<exists>n d. d < 10 \<and> \<bar>(of_nat n * 10 + of_nat d) / 10 - \<bar>v\<bar>\<bar> \<le> 1 / 20
                     \<and> toFixed1 (numberToString env) v
                         = (if v < 0 then ''-'' else '''') @ show_nat n @ ''.''
                           @ [''0123456789'' ! d])))
   \<and> contentId env content = show_int (content_id content) @ ''-'' @ rating env content"
proof -
  have field: "\<forall>m. fst (processItem env a content s) = Some m \<longrightarrow>
      imdbRating m = (case vote_average content of
          None \<Rightarrow> None
        | Some v \<Rightarrow> if v = 0 then None else Some (toFixed1 (numberToString env) v))"
    using processItem_imdbRating by blast
  show ?thesis
  proof (cases "vote_average content")
    case None
    then show ?thesis using field by (simp add: rating_def contentId_def)
  next
    case (Some v)
    show ?thesis
    proof (cases "v = 0")
      case True
      then show ?thesis using field Some by (simp add: rating_def contentId_def)
    next
      case False
      then show ?thesis
        using field Some toFixed1_nearest [of v "numberToString env"]
        by (simp add: rating_def contentId_def)
    qed
  qed
qed

theorem rating_formatting_witness:
  "rating env_up item1 = ''7.7''
   \<and> contentId env_up item1 = ''550-7.7''
   \<and> (\<exists>m. fst (processItem env_up args_movies item1 s0) = Some m \<and> imdbRating m = Some ''7.7'')
   \<and> rating env_up item_unvoted = ''NR''
   \<and> (\<exists>m. fst (processItem env_up args_movies item_unvoted s0) = Some m \<and> imdbRating m = None)"
proof -
  have l: "fst (logoStep env_up args_movies c s0) = Inr None" for c
    by (rule logoStep_no_key) (simp add: args_movies_def)
  have "fst (genresStep env_up args_movies item1 s0) = Inr [''genre1'', ''genre3'']"
    by (rule genresStep_up) (simp add: item1_def)
  then obtain m where m: "fst (processItem env_up args_movies item1 s0) = Some m"
    using processItem_produces [of env_up args_movies item1 s0] l by auto
  have "fst (genresStep env_up args_movies item_unvoted s0) = Inr [''genre1'', ''genre3'']"
    by (rule genresStep_up) (simp add: item_unvoted_def item1_def)
  then obtain m' where m': "fst (processItem env_up args_movies item_unvoted s0) = Some m'"
    using processItem_produces [of env_up args_movies item_unvoted s0] l by auto
  have v: "vote_average item1 = Some (7666 / 1000)" "vote_average item_unvoted = None"
      "show_int (content_id item1) = ''550''"
    by (simp_all add: item1_def item_unvoted_def show_int_def show_nat.simps)
  show ?thesis
    using rating_formatting [where content = item1 and env = env_up and a = args_movies
                               and s = s0]
          rating_formatting [where content = item_unvoted and env = env_up
                               and a = args_movies and s = s0] m m'
    by (simp add: v toFixed1_example)
qed

text \<open>
  The sentence as the spec has it fails on an item without a vote average, whose
  record carries \<open>null\<close> and not the marker, and on an item with a vote average of
  zero, whose rating is the marker and not \<open>0.0\<close>.
\<close>

theorem rating_marker_counterexample:
  "map_option imdbRating (fst (processItem env_up args_movies item_unvoted s0)) = Some None
   \<and> rating env_up item_unvoted = ''NR''
   \<and> vote_average item_unrated = Some 0
   \<and> toFixed1 (numberToString env_up) 0 = ''0.0''
   \<and> rating env_up item_unrated = ''NR''
   \<and> map_option imdbRating (fst (processItem env_up args_movies item_unrated s0)) = Some None"
proof -
  have l: "fst (logoStep env_up args_movies c s0) = Inr None" for c
    by (rule logoStep_no_key) (simp add: args_movies_def)
  have "fst (genresStep env_up args_movies item_unvoted s0) = Inr [''genre1'', ''genre3'']"
    by (rule genresStep_up) (simp add: item_unvoted_def item1_def)
  then obtain m where m: "fst (processItem env_up args_movies item_unvoted s0) = Some m"
    using processItem_produces [of env_up args_movies item_unvoted s0] l by auto
  have "fst (genresStep env_up args_movies item_unrated s0) = Inr [''genre1'', ''genre3'']"
    by (rule genresStep_up) (simp add: item_unrated_def item1_def)
  then obtain m' where m': "fst (processItem env_up args_movies item_unrated s0) = Some m'"
    using processItem_produces [of env_up args_movies item_unrated s0] l by auto
  have v: "vote_average item_unvoted = None" "vote_average item_unrated = Some 0"
    by (simp_all add: item_unvoted_def item_unrated_def item1_def)
  have z: "toFixed1 f 0 = ''0.0''" for f
    by (simp add: toFixed1_def show_nat.simps Let_def)
  show ?thesis
    using processItem_imdbRating [OF m] processItem_imdbRating [OF m'] m m' v
    by (simp add: rating_def z)
qed

section \<open>Batches\<close>

text \<open>
  C7. For every batch, an item whose processing throws adds no record, and the records
  of the items before and after it are those of the batch without it: the result for
  \<open>xs @ c # ys\<close> is the result for \<open>xs\<close>, then the record of \<open>c\<close> if its processing
  returns one and nothing if it throws, then the result for \<open>ys\<close>. The number of
  records is the number of items whose processing does not throw, and whether an item
  throws does not depend on the state it is processed in.
\<close>

theorem buildMetas_drops_failed_items:
  "fst (buildMetas env a (xs @ c # ys) s)
     = fst (buildMetas env a xs s)
       @ (case fst (itemBody env a c (snd (buildMetas env a xs s))) of
            Inl e \<Rightarrow> []
          | Inr m \<Rightarrow> [m])
       @ fst (buildMetas env a ys (snd (processItem env a c (snd (buildMetas env a xs s)))))
   \<and> length (fst (buildMetas env a cs s))
       = length (filter (\<lambda>c. \<not> isl (fst (itemBody env a c s))) cs)
   \<and> isl (fst (itemBody env a c s)) = isl (fst (itemBody env a c s'))"
proof (intro conjI)
  show "fst (buildMetas env a (xs @ c # ys) s)
     = fst (buildMetas env a xs s)
       @ (case fst (itemBody env a c (snd (buildMetas env a xs s))) of
            Inl e \<Rightarrow> []
          | Inr m \<Rightarrow> [m])
       @ fst (buildMetas env a ys (snd (processItem env a c (snd (buildMetas env a xs s)))))"
    by (simp add: buildMetas_append buildMetas_Cons processItem_fst split: sum.splits)
  show "length (fst (buildMetas env a cs s))
       = length (filter (\<lambda>c. \<not> isl (fst (itemBody env a c s))) cs)"
    by (rule buildMetas_length)
  show "isl (fst (itemBody env a c s)) = isl (fst (itemBody env a c s'))"
    by (rule itemBody_isl)
qed

theorem buildMetas_drops_failed_items_witness:
  "isl (fst (itemBody env_down args_movies item_genres s0))
   \<and> map meta_id (fst (buildMetas env_down args_movies [item1, item_genres, item3] s0))
       = [''tmdb:550'', ''tmdb:555'']"
proof -
  have l: "fst (logoStep env_down args_movies c s) = Inr None" for c s
    by (rule logoStep_no_key) (simp add: args_movies_def)
  have i: "fst (imdbIdStep env_down args_movies c s) = None" for c s
    by (rule imdbIdStep_no_key) (simp add: args_movies_def)
  have g1: "fst (genresStep env_down args_movies item1 s) = Inr [''genre1'', ''genre3'']" for s
    by (rule genresStep_down_ok) (simp add: item1_def)
  have g2: "fst (genresStep env_down args_movies item_genres s)
              = Inl (Error ''connection terminated'')" for s
    by (rule genresStep_down_rejected) (simp add: item_genres_def)
  have g3: "fst (genresStep env_down args_movies item3 s) = Inr [''genre1'', ''genre3'']" for s
    by (rule genresStep_down_ok) (simp add: item3_def item1_def)
  have ids: "show_int (content_id item1) = ''550''" "show_int (content_id item3) = ''555''"
    by (simp_all add: item1_def item3_def show_int_def show_nat.simps)
  have b1: "map meta_id (fst (buildMetas env_down args_movies [item1] s)) = [''tmdb:550'']" for s
    by (simp add: buildMetas_Cons buildMetas_Nil processItem_fst itemBody_fst l i g1
                  meta_id_mkMeta_no_imdb ids)
  have b3: "map meta_id (fst (buildMetas env_down args_movies [item3] s)) = [''tmdb:555'']" for s
    by (simp add: buildMetas_Cons buildMetas_Nil processItem_fst itemBody_fst l i g3
                  meta_id_mkMeta_no_imdb ids)
  have thrown: "fst (itemBody env_down args_movies item_genres s)
                  = Inl (Error ''connection terminated'')" for s
    by (simp add: itemBody_fst l g2)
  show ?thesis
    using buildMetas_drops_failed_items
            [where env = env_down and a = args_movies and xs = "[item1]" and c = item_genres
               and ys = "[item3]" and s = s0]
    by (simp add: thrown b1 b3)
qed

text \<open>
  C5. For every item, when a logo-service key is set and the logo fetch fails, which
  for the logo client of the spec is an answer without a URL (\<open>null\<close> or an empty
  string), the failure is not fatal: the item is processed as it is without a
  logo-service key, its record has a \<open>null\<close> logo, and the record is produced
  whenever the genre lookups do not reject.
\<close>

theorem logo_absent_is_not_fatal:
  assumes contract: "fetchLogo_answers env"
      and key: "fanartApiKey a = Some k" "k \<noteq> []"
      and fails: "\<forall>u. getFanartPoster env (content_id content) (language a) k = Inr (Some u)
                     \<longrightarrow> u = []"
  shows "fst (processItem env a content s)
           = fst (processItem env (a\<lparr>fanartApiKey := None\<rparr>) content s)
       \<and> (\<forall>m. fst (processItem env a content s) = Some m \<longrightarrow> logo m = None)
       \<and> ((\<forall>e. fst (genresStep env a content s) \<noteq> Inl e) \<longrightarrow>
            (\<exists>m. fst (processItem env a content s) = Some m \<and> logo m = None))"
proof -
  obtain l where l: "getFanartPoster env (content_id content) (language a) k = Inr l"
    using contract unfolding fetchLogo_answers_def by blast
  have falsy: "\<not> truthy l"
    using fails l by (cases l) (simp_all add: truthy_def)
  have l1: "fst (logoStep env a content s) = Inr l"
    using key l by (simp add: logoStep_def truthy_def)
  have l2: "fst (logoStep env (a\<lparr>fanartApiKey := None\<rparr>) content s) = Inr None"
    by (simp add: logoStep_def truthy_def)
  have same: "fst (processItem env a content s)
                = fst (processItem env (a\<lparr>fanartApiKey := None\<rparr>) content s)"
    by (simp add: processItem_fst itemBody_fst l1 l2 steps_fanart mkMeta_fanart
                  mkMeta_falsy_logo [OF falsy] split: sum.splits)
  have nologo: "logo m = None" if "fst (processItem env a content s) = Some m" for m
  proof -
    have "\<exists>p i g. m = mkMeta env a content p l i g"
      using that by (simp add: processItem_fst itemBody_fst l1 split: sum.splits) blast
    then show ?thesis
      using falsy by (auto simp: logo_mkMeta js_or_def)
  qed
  have produced: "\<exists>m. fst (processItem env a content s) = Some m \<and> logo m = None"
    if g: "\<forall>e. fst (genresStep env a content s) \<noteq> Inl e"
  proof -
    obtain m where "fst (processItem env a content s) = Some m"
      using processItem_produces [of env a content s] g by (auto simp: l1)
    then show ?thesis using nologo by blast
  qed
  show ?thesis
    using same nologo produced by blast
qed

theorem logo_absent_is_not_fatal_witness:
  "fetchLogo_answers env_up
   \<and> fanartApiKey args_logo = Some ''fanart-key''
   \<and> getFanartPoster env_up (content_id item1) (language args_logo) ''fanart-key'' = Inr None
   \<and> (\<exists>m. fst (processItem env_up args_logo item1 s0) = Some m \<and> logo m = None)"
proof -
  have c: "fetchLogo_answers env_up"
    by (simp add: fetchLogo_answers_def env_up_def)
  have k: "fanartApiKey args_logo = Some ''fanart-key''"
    by (simp add: args_logo_def)
  have n: "getFanartPoster env_up (content_id item1) (language args_logo) ''fanart-key'' = Inr None"
    by (simp add: env_up_def)
  have f: "\<forall>u. getFanartPoster env_up (content_id item1) (language args_logo) ''fanart-key''
                 = Inr (Some u) \<longrightarrow> u = []"
    by (simp add: n)
  have g: "fst (genresStep env_up args_logo item1 s0) = Inr [''genre1'', ''genre3'']"
    by (rule genresStep_up) (simp add: item1_def)
  have "(\<forall>e. fst (genresStep env_up args_logo item1 s0) \<noteq> Inl e) \<longrightarrow>
          (\<exists>m. fst (processItem env_up args_logo item1 s0) = Some m \<and> logo m = None)"
    using logo_absent_is_not_fatal [OF c k _ f, of s0, THEN conjunct2, THEN conjunct2]
    by simp
  then show ?thesis
    using c k n by (simp add: g)
qed

text \<open>
  C6, as the program has it. For every item with genre ids, when no lookup rejects
  (and the logo fetch does not reject either), the record is produced and its genres
  are the names of the ids that resolve, in the order of the ids: an id whose lookup
  returns \<open>null\<close> or an empty name is left out, and the others are not affected.
\<close>

theorem genres_resolved_in_order:
  assumes ids: "genre_ids content = Some ids"
      and ok: "\<forall>g \<in> set ids. \<exists>n. fst (getGenreName env g (catalogType a) (language a) s) = Inr n"
      and lg: "\<forall>e. fst (logoStep env a content s) \<noteq> Inl e"
  shows "\<exists>m. fst (processItem env a content s) = Some m
           \<and> genres m = List.map_filter
                 (\<lambda>g. case fst (getGenreName env g (catalogType a) (language a) s) of
                         Inr (Some n) \<Rightarrow> if n = [] then None else Some n
                       | _ \<Rightarrow> None) ids"
proof -
  let ?f = "\<lambda>g. case fst (getGenreName env g (catalogType a) (language a) s) of
                   Inr n \<Rightarrow> n | Inl e \<Rightarrow> None"
  have "fst (genrePromises env ids (catalogType a) (language a) s) = Inr (map ?f ids)"
    by (rule genrePromises_resolved [OF ok])
  then have g: "fst (genresStep env a content s) = Inr (filterBoolean (map ?f ids))"
    using ids by (simp add: genresStep_def case_prod_beta split: sum.splits prod.splits)
  obtain l where l: "fst (logoStep env a content s) = Inr l"
    using lg by (cases "fst (logoStep env a content s)") auto
  have eq: "(\<lambda>g. case ?f g of None \<Rightarrow> None | Some n \<Rightarrow> if n = [] then None else Some n)
          = (\<lambda>g. case fst (getGenreName env g (catalogType a) (language a) s) of
                         Inr (Some n) \<Rightarrow> if n = [] then None else Some n
                       | _ \<Rightarrow> None)"
    by (auto simp: fun_eq_iff split: sum.splits option.splits)
  show ?thesis
    by (simp add: processItem_fst itemBody_fst l g genres_mkMeta filterBoolean_map eq)
qed

theorem genres_resolved_in_order_witness:
  "genre_ids item_genres = Some [1, 2, 3]
   \<and> fst (getGenreName env_up 2 ''movies'' ''en-US'' s0) = Inr None
   \<and> (\<exists>m. fst (processItem env_up args_movies item_genres s0) = Some m
          \<and> genres m = [''genre1'', ''genre3''])"
proof -
  have ids: "genre_ids item_genres = Some [1, 2, 3]"
    by (simp add: item_genres_def)
  have a: "catalogType args_movies = ''movies''" "language args_movies = ''en-US''"
    by (simp_all add: args_movies_def)
  have names: "fst (getGenreName env_up 1 ''movies'' ''en-US'' s0) = Inr (Some ''genre1'')"
      "fst (getGenreName env_up 2 ''movies'' ''en-US'' s0) = Inr None"
      "fst (getGenreName env_up 3 ''movies'' ''en-US'' s0) = Inr (Some ''genre3'')"
    by (simp_all add: getGenreName_fst env_up_def show_int_def show_nat.simps)
  have l: "\<forall>e. fst (logoStep env_up args_movies item_genres s0) \<noteq> Inl e"
    using logoStep_no_key [of args_movies env_up item_genres s0] by (simp add: args_movies_def)
  show ?thesis
    using genres_resolved_in_order [OF ids _ l]
    by (simp add: a names ids List.map_filter_simps)
qed

text \<open>
  The sentence as the spec has it fails when a lookup rejects: \<open>Promise.all\<close>
  rejects, the error reaches the \<open>catch\<close> of the callback and the whole item is
  dropped.
\<close>

theorem genre_rejection_counterexample:
  "genre_ids item_genres = Some [1, 2, 3]
   \<and> fst (getGenreName env_down 2 ''movies'' ''en-US'' s0) = Inl (Error ''connection terminated'')
   \<and> fst (buildMetas env_down args_movies [item_genres] s0) = []"
proof -
  have l: "fst (logoStep env_down args_movies item_genres s) = Inr None" for s
    by (rule logoStep_no_key) (simp add: args_movies_def)
  have g: "fst (genresStep env_down args_movies item_genres s)
             = Inl (Error ''connection terminated'')" for s
    by (rule genresStep_down_rejected) (simp add: item_genres_def)
  show ?thesis
    by (simp add: buildMetas_Cons buildMetas_Nil processItem_fst itemBody_fst l g)
       (simp add: item_genres_def getGenreName_fst env_down_def)
qed

end
